theory Spec2Isabelle
  imports Complex_Main "HOL-Library.Word"
begin

unbundle bit_operations_syntax

section \<open>septafs: a read-only file system over the SEPTA transit feeds\<close>

text \<open>
  The development follows the two source files of package \<open>septa\<close>:
  \<open>api.go\<close> (decoding of the two feeds, markup stripping) and \<open>fs.go\<close> (the tree of
  nodes and the content of the two kinds of file). Go strings and byte slices are
  \<open>string\<close>s (lists of bytes), \<open>uint64\<close> inodes are \<open>64 word\<close>s, \<open>os.FileMode\<close> is a
  \<open>32 word\<close>. A Go function returning \<open>(x, err)\<close> is a function into \<open>error + 'a\<close>.
\<close>

subsection \<open>Errors\<close>

datatype error =
    ENOENT                \<comment> \<open>\<open>fuse.ENOENT\<close>\<close>
  | TransportError        \<comment> \<open>\<open>http.Get\<close>, \<open>ioutil.ReadAll\<close> or \<open>Body.Close\<close> failed\<close>
  | SyntaxError           \<comment> \<open>the body is not JSON\<close>
  | UnmarshalTypeError    \<comment> \<open>a JSON value does not fit the Go type it is decoded into\<close>
  | NumError              \<comment> \<open>\<open>strconv\<close> rejects the text of a number\<close>
  | MarkupParseError      \<comment> \<open>\<open>html.Parse\<close> failed\<close>
  | RegexpError           \<comment> \<open>\<open>regexp.Compile\<close> rejects a pattern\<close>

subsection \<open>Formatting verbs of \<open>fmt.Sprintf\<close>\<close>

definition digit_char :: "nat \<Rightarrow> char" where
  "digit_char d = ''0123456789'' ! (d mod 10)"

function digits10 :: "nat \<Rightarrow> string" where
  "digits10 n = (if n < 10 then [digit_char n] else digits10 (n div 10) @ [digit_char (n mod 10)])"
  by pat_completeness auto
termination
  by (relation "measure id") auto

declare digits10.simps [simp del]

text \<open>\<open>%d\<close> on an \<open>int\<close>.\<close>

definition fmt_d :: "int \<Rightarrow> string" where
  "fmt_d i = (if i < 0 then ''-'' @ digits10 (nat (- i)) else digits10 (nat i))"

text \<open>
  \<open>%f\<close> on a \<open>float64\<close>: six digits after the point, the exact value rounded to the
  nearest multiple of \<open>10\<^sup>-\<^sup>6\<close>, a tie to the even one. A finite \<open>float64\<close> is modelled
  by the rational it denotes (infinities, NaN and the negative zero are not values of
  the model).
\<close>

definition round_half_even :: "rat \<Rightarrow> int" where
  "round_half_even q =
     (let f = \<lfloor>q\<rfloor>; r = q - of_int f
      in if r < 1 / 2 then f else if 1 / 2 < r then f + 1 else if even f then f else f + 1)"

definition pad6 :: "string \<Rightarrow> string" where
  "pad6 s = replicate (6 - length s) (CHR ''0'') @ s"

definition fmt_f :: "rat \<Rightarrow> string" where
  "fmt_f x =
     (let n = nat (round_half_even (\<bar>x\<bar> * 1000000))
      in (if x < 0 then ''-'' else '''') @ digits10 (n div 1000000) @ ''.''
           @ pad6 (digits10 (n mod 1000000)))"

subsection \<open>\<open>api.go\<close>: vehicle positions and alerts\<close>

record BusTrolley =
  Lat :: rat
  Lng :: rat
  LastRead :: int
  Direction :: string
  Destination :: string

text \<open>\<open>BusTrolley.String\<close>: the five lines of the format string, each ended by a newline.\<close>

definition String_BusTrolley :: "BusTrolley \<Rightarrow> string" where
  "String_BusTrolley bt =
     ''Latitude: '' @ fmt_f (Lat bt) @ ''\<newline>''
     @ ''Longitude: '' @ fmt_f (Lng bt) @ ''\<newline>''
     @ ''Direction: '' @ Direction bt @ ''\<newline>''
     @ ''Destination: '' @ Destination bt @ ''\<newline>''
     @ ''LastRead: '' @ fmt_d (LastRead bt) @ '' minutes ago\<newline>''"

record RouteAlert =
  RouteName :: string
  CurrentMessage :: string
  AdvisoryMessage :: string

subsection \<open>\<open>api.go\<close>: markup stripping\<close>

text \<open>
  A compiled regular expression, for the part of the syntax that the pattern of
  \<open>traverseHTML\<close> uses: a sequence of single characters, each taken once, any number of
  times (\<open>*\<close>) or at most once (\<open>?\<close>). \<open>match_here\<close> is the leftmost-first match of
  package \<open>regexp\<close> at the start of the input (a repetition takes as much as it can and
  gives back only if the rest fails); it returns what follows the match.
\<close>

datatype quant = One | ZeroOrMore | ZeroOrOne

type_synonym Regexp = "(char \<times> quant) list"

fun match_here :: "Regexp \<Rightarrow> string \<Rightarrow> string option" where
  "match_here [] s = Some s"
| "match_here ((c, One) # re) [] = None"
| "match_here ((c, One) # re) (x # xs) = (if x = c then match_here re xs else None)"
| "match_here ((c, ZeroOrOne) # re) [] = match_here re []"
| "match_here ((c, ZeroOrOne) # re) (x # xs) =
     (if x = c then
        (case match_here re xs of Some t \<Rightarrow> Some t | None \<Rightarrow> match_here re (x # xs))
      else match_here re (x # xs))"
| "match_here ((c, ZeroOrMore) # re) [] = match_here re []"
| "match_here ((c, ZeroOrMore) # re) (x # xs) =
     (if x = c then
        (case match_here ((c, ZeroOrMore) # re) xs of
           Some t \<Rightarrow> Some t
         | None \<Rightarrow> match_here re (x # xs))
      else match_here re (x # xs))"

text \<open>
  \<open>re.ReplaceAllString(src, "")\<close>: the matches are looked for from left to right, each
  after the end of the one before; with the empty replacement the result is the input
  without the matched stretches (an empty match removes nothing).
\<close>

function ReplaceAllString :: "Regexp \<Rightarrow> string \<Rightarrow> string" where
  "ReplaceAllString re [] = []"
| "ReplaceAllString re (x # xs) =
     (case match_here re (x # xs) of
        None \<Rightarrow> x # ReplaceAllString re xs
      | Some t \<Rightarrow>
          if length t < length (x # xs) then ReplaceAllString re t
          else x # ReplaceAllString re xs)"
  by pat_completeness auto
termination
  by (relation "measure (\<lambda>(re, s). length s)") auto

text \<open>The pattern of \<open>traverseHTML\<close>: a newline, then tabs, then at most one space.\<close>

definition pattern :: string where
  "pattern = [CHR ''\<newline>'', CHR 0x09, CHR ''*'', CHR '' '', CHR ''?'']"

definition pattern_re :: Regexp where
  "pattern_re = [(CHR ''\<newline>'', One), (CHR 0x09, ZeroOrMore), (CHR '' '', ZeroOrOne)]"

text \<open>
  \<open>html.Node\<close>: the kind of node, its data (the text of a text node, the tag of an
  element) and its children, first to last (the chain \<open>FirstChild\<close>, \<open>NextSibling\<close>).
\<close>

datatype NodeType = ErrorNode | TextNode | DocumentNode | ElementNode | CommentNode | DoctypeNode

datatype html_Node = Node NodeType string "html_Node list"

text \<open>
  \<open>HTTPClient.traverseHTML\<close>. \<open>regexp.Compile\<close> is the parameter \<open>Compile\<close>; the loop
  over the children is \<open>traverse_children\<close>, which carries the buffer \<open>b\<close>.
\<close>

fun traverseHTML :: "(string \<Rightarrow> error + Regexp) \<Rightarrow> html_Node \<Rightarrow> error + string"
  and traverse_children :: "(string \<Rightarrow> error + Regexp) \<Rightarrow> html_Node list \<Rightarrow> string \<Rightarrow> error + string"
where
  "traverseHTML Compile (Node ty data ms) =
     (case Compile pattern of
        Inl err \<Rightarrow> Inl err
      | Inr re \<Rightarrow>
          (let b = (case ty of
                      TextNode \<Rightarrow> (let t = ReplaceAllString re data in if t \<noteq> [] then t else [])
                    | _ \<Rightarrow> []);
               addNewline = (ty = ElementNode \<and> (data = ''p'' \<or> data = ''h3''))
           in case traverse_children Compile ms b of
                Inl err \<Rightarrow> Inl err
              | Inr b \<Rightarrow> Inr (if addNewline then b @ ''\<newline>'' else b)))"
| "traverse_children Compile [] b = Inr b"
| "traverse_children Compile (m # ms) b =
     (case traverseHTML Compile m of
        Inl err \<Rightarrow> Inl err
      | Inr t \<Rightarrow> traverse_children Compile ms (b @ t))"

text \<open>\<open>HTTPClient.stripHTML\<close>; \<open>html.Parse\<close> is the parameter \<open>Parse\<close>.\<close>

definition stripHTML ::
  "(string \<Rightarrow> error + html_Node) \<Rightarrow> (string \<Rightarrow> error + Regexp) \<Rightarrow> string \<Rightarrow> error + string" where
  "stripHTML Parse Compile s =
     (case Parse s of
        Inl err \<Rightarrow> Inl err
      | Inr n \<Rightarrow> traverseHTML Compile n)"

text \<open>
  The removal as the specification words it: wherever a newline stands, it goes together
  with the tabs that follow it and one space after them, if there is one.
\<close>

function strip_runs :: "string \<Rightarrow> string" where
  "strip_runs [] = []"
| "strip_runs (x # xs) =
     (if x = CHR ''\<newline>'' then
        (let r = dropWhile (\<lambda>c. c = CHR 0x09) xs
         in strip_runs (case r of [] \<Rightarrow> [] | y # ys \<Rightarrow> if y = CHR '' '' then ys else y # ys))
      else x # strip_runs xs)"
  by pat_completeness auto
termination
proof (relation "measure length")
  show "wf (measure length)" by simp
next
  fix x :: char and xs r :: string
  assume "r = dropWhile (\<lambda>c. c = CHR 0x09) xs"
  then have "length r \<le> length xs" by (simp add: length_dropWhile_le)
  then show "((case r of [] \<Rightarrow> [] | y # ys \<Rightarrow> if y = CHR '' '' then ys else y # ys), x # xs) \<in> measure length"
    by (cases r) auto
next
  fix x :: char and xs :: string
  show "(xs, x # xs) \<in> measure length" by simp
qed

text \<open>
  A tree has its text in leaves (as every tree that \<open>html.Parse\<close> returns does), and
  the rendering as the specification words it: a text node gives its text without the
  runs, a \<open>p\<close> or \<open>h3\<close> element gives what its children give and one newline, every
  other node gives what its children give.
\<close>

fun text_leaves :: "html_Node \<Rightarrow> bool" where
  "text_leaves (Node ty d ms) = ((ty = TextNode \<longrightarrow> ms = []) \<and> list_all text_leaves ms)"

fun rendered :: "html_Node \<Rightarrow> string" where
  "rendered (Node ty d ms) =
     (case ty of
        TextNode \<Rightarrow> strip_runs d
      | ElementNode \<Rightarrow>
          concat (map rendered ms) @ (if d = ''p'' \<or> d = ''h3'' then ''\<newline>'' else [])
      | _ \<Rightarrow> concat (map rendered ms))"

text \<open>The text \<open><p>Hello\n\tworld</p>\<close> and the tree that \<open>html.Parse\<close> builds for it.\<close>

definition Hello_src :: string where
  "Hello_src = ''<p>Hello'' @ [CHR ''\<newline>'', CHR 0x09] @ ''world</p>''"

definition Hello_doc :: html_Node where
  "Hello_doc =
     Node DocumentNode []
       [Node ElementNode ''html''
          [Node ElementNode ''head'' [],
           Node ElementNode ''body''
             [Node ElementNode ''p''
                [Node TextNode (''Hello'' @ [CHR ''\<newline>'', CHR 0x09] @ ''world'') []]]]]"

subsection \<open>\<open>fs.go\<close>: the tree of nodes\<close>

type_synonym u64 = "64 word"

text \<open>
  \<open>fs.GenerateDynamicInode\<close> of \<open>bazil.org/fuse\<close>, which the tree takes its inodes from:
  the 64-bit FNV-1a hash of the eight bytes of the parent's inode, low byte first,
  followed by the bytes of the name; as long as the sum is zero, the byte \<open>x\<close> is
  written after it. (Later versions of the library also pass over the sum 1; no sum of
  the tree below is 0 or 1, so that both give it the same inodes.)
\<close>

definition fnv_offset64 :: u64 where
  "fnv_offset64 = 14695981039346656037"

definition fnv_prime64 :: u64 where
  "fnv_prime64 = 1099511628211"

fun fnv_Write :: "u64 \<Rightarrow> u64 list \<Rightarrow> u64" where
  "fnv_Write h [] = h"
| "fnv_Write h (c # cs) = fnv_Write ((h XOR c) * fnv_prime64) cs"

definition PutUint64 :: "u64 \<Rightarrow> u64 list" where
  "PutUint64 v = map (\<lambda>k. drop_bit (8 * k) v AND 255) [0, 1, 2, 3, 4, 5, 6, 7]"

function Sum64_nonzero :: "u64 \<Rightarrow> u64" where
  "Sum64_nonzero h = (if h \<noteq> 0 then h else Sum64_nonzero (fnv_Write h [of_char (CHR ''x'')]))"
  by pat_completeness auto
termination
  by (relation "measure (\<lambda>h. if h = 0 then 1 else 0)") (auto simp: fnv_prime64_def)

declare Sum64_nonzero.simps [simp del]

definition GenerateDynamicInode :: "u64 \<Rightarrow> string \<Rightarrow> u64" where
  "GenerateDynamicInode parent name =
     Sum64_nonzero (fnv_Write (fnv_Write fnv_offset64 (PutUint64 parent)) (map of_char name))"

record Attr =
  Inode :: u64
  Mode :: "32 word"

definition ModeDir :: "32 word" where
  "ModeDir = push_bit 31 1"

datatype DirentType = DT_Unknown | DT_File | DT_Dir

record Dirent =
  Name :: string
  Type :: DirentType

definition tRouteIDs :: "string list" where
  "tRouteIDs = [''10'', ''11'', ''13'', ''15'', ''34'', ''36'', ''101'', ''102'']"

definition bRouteIDs :: "string list" where
  "bRouteIDs = [''1'', ''2'', ''3'', ''4'', ''5''] @ [''6'', ''7'', ''8'', ''9'', ''12'',
    ''14'', ''16'', ''17'', ''18'', ''19'', ''20'', ''21'', ''22'', ''23'', ''24'', ''25'', ''26'', ''27'',
    ''28'', ''29'', ''30'', ''31'', ''32'', ''33'', ''35'', ''37'', ''38'', ''39'', ''40'', ''42'', ''43'',
    ''44'', ''46'', ''47'', ''47m'', ''48'', ''50'', ''52'', ''53'', ''54'', ''55'', ''56'', ''57'', ''58'',
    ''59'', ''60'', ''61'', ''62'', ''64'', ''65'', ''66'', ''67'', ''68'', ''70'', ''73'', ''75'', ''77'',
    ''78'', ''79'', ''80'', ''84'', ''88'', ''89'', ''G'', ''H'', ''XH'', ''J'', ''K'', ''L'', ''R'', ''LUCY'',
    ''90'', ''91'', ''92'', ''93'', ''94'', ''95'', ''96'', ''97'', ''98'', ''99'', ''103'', ''104'',
    ''105'', ''106'', ''107'', ''108'', ''109'', ''110'', ''111'', ''112'', ''113'', ''114'', ''115'',
    ''116'', ''117'', ''118'', ''119'', ''120'', ''123'', ''124'', ''125'', ''126'', ''127'', ''128'',
    ''129'', ''130'', ''131'', ''132'', ''133'', ''139'', ''150'', ''201'', ''204'', ''205'', ''206'',
    ''310'']"

record busTrolleyLocation =
  route :: string
  inode :: u64

record routeAlerts =
  route :: string
  inode :: u64

record busTrolleyRoute =
  route :: string
  inode :: u64
  isBus :: bool
  locationNode :: busTrolleyLocation
  alertsNode :: routeAlerts

record busTrolleyRoutes =
  routeNodes :: "string \<rightharpoonup> busTrolleyRoute"
  routeIDs :: "string list"
  inode :: u64

record rootDir =
  trolleyNode :: busTrolleyRoutes
  busNode :: busTrolleyRoutes

text \<open>A value of the interface \<open>fs.Node\<close>: one of the five kinds of node.\<close>

datatype fs_Node =
    RootDir rootDir
  | RoutesDir busTrolleyRoutes
  | RouteDir busTrolleyRoute
  | LocationFile busTrolleyLocation
  | AlertsFile routeAlerts

text \<open>\<open>newBusTrolleyRoute\<close>; the generator of inodes is the parameter \<open>G\<close>.\<close>

definition newBusTrolleyRoute :: "(u64 \<Rightarrow> string \<Rightarrow> u64) \<Rightarrow> string \<Rightarrow> u64 \<Rightarrow> bool \<Rightarrow> busTrolleyRoute" where
  "newBusTrolleyRoute G route' inode' isBus' =
     (let locations = \<lparr>busTrolleyLocation.route = route',
                       busTrolleyLocation.inode = G inode' ''locations''\<rparr>;
          routeName = (if isBus' then ''bus_route_'' @ route' else ''trolley_route_'' @ route');
          alerts = \<lparr>routeAlerts.route = routeName, routeAlerts.inode = G inode' ''alerts''\<rparr>
      in \<lparr>busTrolleyRoute.route = route', busTrolleyRoute.inode = inode',
          isBus = isBus', locationNode = locations, alertsNode = alerts\<rparr>)"

text \<open>\<open>newBusTrolleyRoutes\<close>: the loop over \<open>routes\<close> fills the map.\<close>

fun newBusTrolleyRoutes_loop ::
  "(u64 \<Rightarrow> string \<Rightarrow> u64) \<Rightarrow> bool \<Rightarrow> string list \<Rightarrow> busTrolleyRoutes \<Rightarrow> busTrolleyRoutes" where
  "newBusTrolleyRoutes_loop G isBus' [] r = r"
| "newBusTrolleyRoutes_loop G isBus' (id' # routes) r =
     (let inode' = G (busTrolleyRoutes.inode r) id'
      in newBusTrolleyRoutes_loop G isBus' routes
           (r\<lparr>routeNodes := (routeNodes r)(id' \<mapsto> newBusTrolleyRoute G id' inode' isBus')\<rparr>))"

definition newBusTrolleyRoutes ::
  "(u64 \<Rightarrow> string \<Rightarrow> u64) \<Rightarrow> string list \<Rightarrow> bool \<Rightarrow> u64 \<Rightarrow> busTrolleyRoutes" where
  "newBusTrolleyRoutes G routes isBus' inode' =
     newBusTrolleyRoutes_loop G isBus' routes
       \<lparr>routeNodes = Map.empty, routeIDs = routes, busTrolleyRoutes.inode = inode'\<rparr>"

text \<open>\<open>FS.Root\<close>.\<close>

definition Root :: "(u64 \<Rightarrow> string \<Rightarrow> u64) \<Rightarrow> rootDir" where
  "Root G = \<lparr>trolleyNode = newBusTrolleyRoutes G tRouteIDs False 2,
             busNode = newBusTrolleyRoutes G bRouteIDs True 3\<rparr>"

text \<open>
  The methods of \<open>rootDir\<close>. The permission bits are octal in the source: \<open>0555\<close> is
  \<open>5 * 64 + 5 * 8 + 5\<close>, \<open>055\<close> is \<open>5 * 8 + 5\<close>, \<open>0444\<close> is \<open>4 * 64 + 4 * 8 + 4\<close>.
\<close>

definition Attr_rootDir :: "rootDir \<Rightarrow> Attr" where
  "Attr_rootDir r = \<lparr>Inode = 1, Mode = ModeDir OR (5 * 64 + 5 * 8 + 5)\<rparr>"

definition ReadDir_rootDir :: "rootDir \<Rightarrow> Dirent list" where
  "ReadDir_rootDir r = [\<lparr>Name = ''trolley'', Type = DT_Dir\<rparr>, \<lparr>Name = ''bus'', Type = DT_Dir\<rparr>]"

definition Lookup_rootDir :: "rootDir \<Rightarrow> string \<Rightarrow> error + fs_Node" where
  "Lookup_rootDir r name =
     (if name = ''trolley'' then Inr (RoutesDir (trolleyNode r))
      else if name = ''bus'' then Inr (RoutesDir (busNode r))
      else Inl ENOENT)"

text \<open>The methods of \<open>busTrolleyRoutes\<close>.\<close>

definition Attr_busTrolleyRoutes :: "busTrolleyRoutes \<Rightarrow> Attr" where
  "Attr_busTrolleyRoutes r = \<lparr>Inode = busTrolleyRoutes.inode r, Mode = ModeDir OR (5 * 8 + 5)\<rparr>"

definition Lookup_busTrolleyRoutes :: "busTrolleyRoutes \<Rightarrow> string \<Rightarrow> error + fs_Node" where
  "Lookup_busTrolleyRoutes r name =
     (case routeNodes r name of
        None \<Rightarrow> Inl ENOENT
      | Some n \<Rightarrow> Inr (RouteDir n))"

definition ReadDir_busTrolleyRoutes :: "busTrolleyRoutes \<Rightarrow> Dirent list" where
  "ReadDir_busTrolleyRoutes r = map (\<lambda>id'. \<lparr>Name = id', Type = DT_Dir\<rparr>) (routeIDs r)"

text \<open>The methods of \<open>busTrolleyRoute\<close>.\<close>

definition Attr_busTrolleyRoute :: "busTrolleyRoute \<Rightarrow> Attr" where
  "Attr_busTrolleyRoute r = \<lparr>Inode = busTrolleyRoute.inode r, Mode = ModeDir OR (5 * 64 + 5 * 8 + 5)\<rparr>"

definition Lookup_busTrolleyRoute :: "busTrolleyRoute \<Rightarrow> string \<Rightarrow> error + fs_Node" where
  "Lookup_busTrolleyRoute r name =
     (if name = ''locations'' then Inr (LocationFile (locationNode r))
      else if name = ''alerts'' then Inr (AlertsFile (alertsNode r))
      else Inl ENOENT)"

definition ReadDir_busTrolleyRoute :: "busTrolleyRoute \<Rightarrow> Dirent list" where
  "ReadDir_busTrolleyRoute r =
     (let locations = \<lparr>Name = ''locations'', Type = DT_File\<rparr>;
          alerts = \<lparr>Name = ''alerts'', Type = DT_File\<rparr>
      in [] @ [locations, alerts])"

text \<open>The attributes of the two files.\<close>

definition Attr_busTrolleyLocation :: "busTrolleyLocation \<Rightarrow> Attr" where
  "Attr_busTrolleyLocation v = \<lparr>Inode = busTrolleyLocation.inode v, Mode = 4 * 64 + 4 * 8 + 4\<rparr>"

definition Attr_routeAlerts :: "routeAlerts \<Rightarrow> Attr" where
  "Attr_routeAlerts r = \<lparr>Inode = routeAlerts.inode r, Mode = 4 * 64 + 4 * 8 + 4\<rparr>"

text \<open>
  The three methods on a value of the interface, as the FUSE server calls them. A file
  has neither \<open>ReadDir\<close> nor \<open>Lookup\<close>: it lists nothing and a lookup in it finds
  nothing.
\<close>

fun node_Attr :: "fs_Node \<Rightarrow> Attr" where
  "node_Attr (RootDir r) = Attr_rootDir r"
| "node_Attr (RoutesDir r) = Attr_busTrolleyRoutes r"
| "node_Attr (RouteDir r) = Attr_busTrolleyRoute r"
| "node_Attr (LocationFile v) = Attr_busTrolleyLocation v"
| "node_Attr (AlertsFile r) = Attr_routeAlerts r"

fun node_ReadDir :: "fs_Node \<Rightarrow> Dirent list" where
  "node_ReadDir (RootDir r) = ReadDir_rootDir r"
| "node_ReadDir (RoutesDir r) = ReadDir_busTrolleyRoutes r"
| "node_ReadDir (RouteDir r) = ReadDir_busTrolleyRoute r"
| "node_ReadDir (LocationFile v) = []"
| "node_ReadDir (AlertsFile r) = []"

fun node_Lookup :: "fs_Node \<Rightarrow> string \<Rightarrow> error + fs_Node" where
  "node_Lookup (RootDir r) name = Lookup_rootDir r name"
| "node_Lookup (RoutesDir r) name = Lookup_busTrolleyRoutes r name"
| "node_Lookup (RouteDir r) name = Lookup_busTrolleyRoute r name"
| "node_Lookup (LocationFile v) name = Inl ENOENT"
| "node_Lookup (AlertsFile r) name = Inl ENOENT"

text \<open>
  The paths of the tree under a node, down to a depth, each with the node it leads to:
  the names that \<open>ReadDir\<close> lists, followed through \<open>Lookup\<close>.
\<close>

fun paths :: "nat \<Rightarrow> fs_Node \<Rightarrow> (string list \<times> fs_Node) list" where
  "paths 0 n = [([], n)]"
| "paths (Suc k) n =
     ([], n) # concat (map (\<lambda>e. case node_Lookup n (Name e) of
                                   Inl err \<Rightarrow> []
                                 | Inr c \<Rightarrow> map (\<lambda>(p, m). (Name e # p, m)) (paths k c))
                           (node_ReadDir n))"

subsection \<open>\<open>fs.go\<close>: the content of the two files\<close>

text \<open>
  \<open>busTrolleyLocation.ReadAll\<close>. The method \<open>client.TransitView\<close> is the
  parameter \<open>TransitView\<close>; the loop appends, for each position, its \<open>String()\<close> and one
  more newline to \<open>b\<close>.
\<close>

fun locations_loop :: "BusTrolley list \<Rightarrow> string \<Rightarrow> string" where
  "locations_loop [] b = b"
| "locations_loop (bt # ret) b =
     (let btBytes = String_BusTrolley bt;
          btBytes = btBytes @ ''\<newline>''
      in locations_loop ret (b @ btBytes))"

definition ReadAll_busTrolleyLocation ::
  "(string \<Rightarrow> error + BusTrolley list) \<Rightarrow> busTrolleyLocation \<Rightarrow> error + string" where
  "ReadAll_busTrolleyLocation TransitView v =
     (case TransitView (busTrolleyLocation.route v) of
        Inl err \<Rightarrow> Inl err
      | Inr ret \<Rightarrow> Inr (locations_loop ret []))"

text \<open>
  \<open>routeAlerts.ReadAll\<close>. Each of the two loops runs over the indices of \<open>rts\<close> and
  appends a newline to every message but the last.
\<close>

function alerts_loop :: "(RouteAlert \<Rightarrow> string) \<Rightarrow> RouteAlert list \<Rightarrow> nat \<Rightarrow> string \<Rightarrow> string" where
  "alerts_loop msg rts i b =
     (if i < length rts then
        (let altBytes = msg (rts ! i);
             altBytes = (if i + 1 < length rts then altBytes @ ''\<newline>'' else altBytes)
         in alerts_loop msg rts (i + 1) (b @ altBytes))
      else b)"
  by pat_completeness auto
termination
  by (relation "measure (\<lambda>(msg, rts, i, b). length rts - i)") auto

declare alerts_loop.simps [simp del]

definition currentHeader :: string where
  "currentHeader = ''CURRENT ALERTS:\<newline>\<newline>''"

definition advisoryHeader :: string where
  "advisoryHeader = ''ADVISORIES:\<newline>\<newline>''"

definition ReadAll_routeAlerts ::
  "(string \<Rightarrow> error + RouteAlert list) \<Rightarrow> routeAlerts \<Rightarrow> error + string" where
  "ReadAll_routeAlerts RouteAlerts r =
     (case RouteAlerts (routeAlerts.route r) of
        Inl err \<Rightarrow> Inl err
      | Inr rts \<Rightarrow>
          (let b = [] @ currentHeader;
               b = alerts_loop CurrentMessage rts 0 b;
               b = b @ advisoryHeader;
               b = alerts_loop AdvisoryMessage rts 0 b
           in Inr b))"

text \<open>The joining of messages as the specification words it: a separator between
  neighbours, none after the last.\<close>

fun join :: "string \<Rightarrow> string list \<Rightarrow> string" where
  "join sep [] = []"
| "join sep [x] = x"
| "join sep (x # y # ys) = x @ sep @ join sep (y # ys)"

text \<open>A feed that answers every request with the same result.\<close>

definition answering :: "'b \<Rightarrow> string \<Rightarrow> 'b" where
  "answering res req = res"

section \<open>Properties\<close>

subsection \<open>The content of the two files\<close>

text \<open>Unfolding \<open>digits10\<close> at a literal only.\<close>

lemma digits10_numeral:
  "digits10 (numeral k) =
     (if (numeral k :: nat) < 10 then [digit_char (numeral k)]
      else digits10 (numeral k div 10) @ [digit_char (numeral k mod 10)])"
  by (subst digits10.simps) simp

lemma digits10_0: "digits10 0 = ''0''"
  by (subst digits10.simps) (simp add: digit_char_def)

lemma digits10_1: "digits10 (Suc 0) = ''1''"
  by (subst digits10.simps) (simp add: digit_char_def)

lemma pad6_0: "pad6 ''0'' = ''000000''"
  by (simp add: pad6_def eval_nat_numeral)

lemma round_half_even_of_int: "round_half_even (of_int i) = i"
  by (simp add: round_half_even_def)

lemma fmt_f_1: "fmt_f 1 = ''1.000000''"
proof -
  have "round_half_even (\<bar>1\<bar> * 1000000) = 1000000"
    using round_half_even_of_int [of 1000000] by simp
  then show ?thesis
    by (simp add: fmt_f_def pad6_0 digits10_numeral digits10_0 digits10_1 digit_char_def)
qed

lemma fmt_f_2: "fmt_f 2 = ''2.000000''"
proof -
  have "round_half_even (\<bar>2\<bar> * 1000000) = 2000000"
    using round_half_even_of_int [of 2000000] by simp
  then show ?thesis
    by (simp add: fmt_f_def pad6_0 digits10_numeral digits10_0 digits10_1 digit_char_def)
qed

lemma fmt_d_5: "fmt_d 5 = ''5''"
  by (simp add: fmt_d_def digits10_numeral digit_char_def)

lemma locations_loop_eq:
  "locations_loop ret b = b @ concat (map (\<lambda>bt. String_BusTrolley bt @ ''\<newline>'') ret)"
  by (induction ret arbitrary: b) simp_all

lemma alerts_loop_eq:
  "i \<le> length rts \<Longrightarrow> alerts_loop msg rts i b = b @ join ''\<newline>'' (map msg (drop i rts))"
proof (induction msg rts i b rule: alerts_loop.induct)
  case (1 msg rts i b)
  show ?case
  proof (cases "i < length rts")
    case False
    with 1 show ?thesis by (simp add: alerts_loop.simps)
  next
    case True
    have d: "drop i rts = rts ! i # drop (Suc i) rts"
      using True by (simp add: Cons_nth_drop_Suc)
    show ?thesis
    proof (cases "i + 1 < length rts")
      case True
      have e: "drop (Suc i) rts = rts ! Suc i # drop (Suc (Suc i)) rts"
        using True by (simp add: Cons_nth_drop_Suc)
      have "alerts_loop msg rts i b = alerts_loop msg rts (i + 1) (b @ msg (rts ! i) @ ''\<newline>'')"
        using True by (subst alerts_loop.simps) (simp add: Let_def)
      also have "\<dots> = (b @ msg (rts ! i) @ ''\<newline>'') @ join ''\<newline>'' (map msg (drop (i + 1) rts))"
        using 1 True by simp
      also have "\<dots> = b @ join ''\<newline>'' (map msg (drop i rts))"
        by (simp add: d e)
      finally show ?thesis .
    next
      case False
      have e: "drop (Suc i) rts = []" using False by simp
      have "alerts_loop msg rts i b = alerts_loop msg rts (i + 1) (b @ msg (rts ! i))"
        using True False by (subst alerts_loop.simps) (simp add: Let_def)
      also have "\<dots> = (b @ msg (rts ! i)) @ join ''\<newline>'' (map msg (drop (i + 1) rts))"
        using 1 True False by simp
      also have "\<dots> = b @ join ''\<newline>'' (map msg (drop i rts))"
        by (simp add: d e)
      finally show ?thesis .
    qed
  qed
qed

text \<open>
  C1, as the code has it. Reading \<open>locations\<close> gives, for the positions in their order,
  the block \<open>Latitude: <f>\n Longitude: <f>\n Direction: <s>\n Destination: <s>\n
  LastRead: <d> minutes ago\n\<close> of each, and after every block one more newline: the
  blocks are kept apart by an empty line, and the content ends with one. For the single
  position \<open>{1.0, 2.0, "N", "Center City", 5}\<close> the content is the block followed by a
  second newline.
\<close>

theorem locations_content:
  "ReadAll_busTrolleyLocation (answering (Inr ps)) v =
     Inr (concat (map (\<lambda>bt.
        (''Latitude: '' @ fmt_f (Lat bt) @ ''\<newline>''
         @ ''Longitude: '' @ fmt_f (Lng bt) @ ''\<newline>''
         @ ''Direction: '' @ Direction bt @ ''\<newline>''
         @ ''Destination: '' @ Destination bt @ ''\<newline>''
         @ ''LastRead: '' @ fmt_d (LastRead bt) @ '' minutes ago\<newline>'') @ ''\<newline>'') ps))
   \<and> ReadAll_busTrolleyLocation
         (answering (Inr [\<lparr>Lat = 1, Lng = 2, LastRead = 5, Direction = ''N'',
                           Destination = ''Center City''\<rparr>])) v =
       Inr ''Latitude: 1.000000\<newline>Longitude: 2.000000\<newline>Direction: N\<newline>Destination: Center City\<newline>LastRead: 5 minutes ago\<newline>\<newline>''"
proof
  show "ReadAll_busTrolleyLocation (answering (Inr ps)) v =
     Inr (concat (map (\<lambda>bt.
        (''Latitude: '' @ fmt_f (Lat bt) @ ''\<newline>''
         @ ''Longitude: '' @ fmt_f (Lng bt) @ ''\<newline>''
         @ ''Direction: '' @ Direction bt @ ''\<newline>''
         @ ''Destination: '' @ Destination bt @ ''\<newline>''
         @ ''LastRead: '' @ fmt_d (LastRead bt) @ '' minutes ago\<newline>'') @ ''\<newline>'') ps))"
    by (simp add: ReadAll_busTrolleyLocation_def answering_def locations_loop_eq
        String_BusTrolley_def)
next
  show "ReadAll_busTrolleyLocation
         (answering (Inr [\<lparr>Lat = 1, Lng = 2, LastRead = 5, Direction = ''N'',
                           Destination = ''Center City''\<rparr>])) v =
       Inr ''Latitude: 1.000000\<newline>Longitude: 2.000000\<newline>Direction: N\<newline>Destination: Center City\<newline>LastRead: 5 minutes ago\<newline>\<newline>''"
    by (simp add: ReadAll_busTrolleyLocation_def answering_def String_BusTrolley_def
        fmt_f_1 fmt_f_2 fmt_d_5)
qed

text \<open>
  C1, as the specification has it, fails: for the single position of its example the
  content is not the block alone.
\<close>

theorem locations_content_counterexample:
  "ReadAll_busTrolleyLocation
     (answering (Inr [\<lparr>Lat = 1, Lng = 2, LastRead = 5, Direction = ''N'',
                       Destination = ''Center City''\<rparr>]))
     \<lparr>busTrolleyLocation.route = ''34'', busTrolleyLocation.inode = 7\<rparr>
   \<noteq> Inr ''Latitude: 1.000000\<newline>Longitude: 2.000000\<newline>Direction: N\<newline>Destination: Center City\<newline>LastRead: 5 minutes ago\<newline>''"
  by (simp add: ReadAll_busTrolleyLocation_def answering_def String_BusTrolley_def
      fmt_f_1 fmt_f_2 fmt_d_5)

text \<open>
  C4. Reading \<open>alerts\<close> gives the header \<open>CURRENT ALERTS:\n\n\<close>, the current messages
  in their order with a newline between neighbours and none after the last, the header
  \<open>ADVISORIES:\n\n\<close>, and the advisory messages joined in the same way. For the alerts
  \<open>[{cur:"A",adv:"X"},{cur:"B",adv:"Y"}]\<close> the content is \<open>CURRENT ALERTS:\n\nA\nB\<close>
  immediately followed by \<open>ADVISORIES:\n\nX\nY\<close>.
\<close>

theorem alerts_content:
  "ReadAll_routeAlerts (answering (Inr rts)) r =
     Inr (''CURRENT ALERTS:\<newline>\<newline>'' @ join ''\<newline>'' (map CurrentMessage rts)
          @ ''ADVISORIES:\<newline>\<newline>'' @ join ''\<newline>'' (map AdvisoryMessage rts))
   \<and> ReadAll_routeAlerts
         (answering (Inr [\<lparr>RouteName = n1, CurrentMessage = ''A'', AdvisoryMessage = ''X''\<rparr>,
                          \<lparr>RouteName = n2, CurrentMessage = ''B'', AdvisoryMessage = ''Y''\<rparr>])) r =
       Inr (''CURRENT ALERTS:\<newline>\<newline>A\<newline>B'' @ ''ADVISORIES:\<newline>\<newline>X\<newline>Y'')"
proof -
  have general: "ReadAll_routeAlerts (answering (Inr xs)) r =
     Inr (''CURRENT ALERTS:\<newline>\<newline>'' @ join ''\<newline>'' (map CurrentMessage xs)
          @ ''ADVISORIES:\<newline>\<newline>'' @ join ''\<newline>'' (map AdvisoryMessage xs))" for xs
    by (simp add: ReadAll_routeAlerts_def answering_def alerts_loop_eq currentHeader_def
        advisoryHeader_def)
  show ?thesis
    by (rule conjI, rule general, subst general, simp)
qed

subsection \<open>Attributes\<close>

text \<open>
  C2. The root and a route directory report a directory with the bits \<open>0555\<close>, the two
  files report \<open>0444\<close>. A catalog directory (\<open>trolley\<close>, \<open>bus\<close>) reports a directory
  with the bits \<open>055\<close>: no write bit, and neither the read bit \<open>0400\<close> nor the execute
  bit \<open>0100\<close> of the owner.
\<close>

theorem catalog_directory_mode:
  "Mode (Attr_busTrolleyRoutes c) = ModeDir OR (5 * 8 + 5)
   \<and> Mode (Attr_busTrolleyRoutes c) AND (4 * 64) = 0
   \<and> Mode (Attr_busTrolleyRoutes c) AND (1 * 64) = 0
   \<and> Mode (Attr_busTrolleyRoutes c) \<noteq> ModeDir OR (5 * 64 + 5 * 8 + 5)
   \<and> Mode (Attr_rootDir d) = ModeDir OR (5 * 64 + 5 * 8 + 5)
   \<and> Mode (Attr_busTrolleyRoute r) = ModeDir OR (5 * 64 + 5 * 8 + 5)
   \<and> Mode (Attr_busTrolleyLocation v) = 4 * 64 + 4 * 8 + 4
   \<and> Mode (Attr_routeAlerts a) = 4 * 64 + 4 * 8 + 4"
  by (simp add: Attr_busTrolleyRoutes_def Attr_rootDir_def Attr_busTrolleyRoute_def
      Attr_busTrolleyLocation_def Attr_routeAlerts_def ModeDir_def)

subsection \<open>Markup stripping\<close>

text \<open>What the compiled pattern matches at the start of a text.\<close>

lemma match_here_pattern_re:
  "match_here pattern_re (x # xs) =
     (if x = CHR ''\<newline>'' then
        Some (case dropWhile (\<lambda>c. c = CHR 0x09) xs of [] \<Rightarrow> [] | y # ys \<Rightarrow> if y = CHR '' '' then ys else y # ys)
      else None)"
proof -
  have sp: "match_here [(CHR '' '', ZeroOrOne)] s = Some (case s of [] \<Rightarrow> [] | y # ys \<Rightarrow> if y = CHR '' '' then ys else y # ys)" for s
    by (cases s) auto
  have tabs: "match_here [(CHR 0x09, ZeroOrMore), (CHR '' '', ZeroOrOne)] s =
      Some (case dropWhile (\<lambda>c. c = CHR 0x09) s of [] \<Rightarrow> [] | y # ys \<Rightarrow> if y = CHR '' '' then ys else y # ys)" for s
  proof (induction s)
    case Nil
    show ?case by simp
  next
    case (Cons a s)
    show ?case
    proof (cases "a = CHR 0x09")
      case True
      then show ?thesis using Cons by simp
    next
      case False
      then show ?thesis using sp [of "a # s"] by simp
    qed
  qed
  show ?thesis by (simp add: pattern_re_def tabs)
qed

lemma match_here_shorter: "match_here pattern_re s = Some t \<Longrightarrow> length t < length s"
proof (cases s)
  case Nil
  assume "match_here pattern_re s = Some t"
  then show ?thesis using Nil by (simp add: pattern_re_def)
next
  case (Cons x xs)
  assume m: "match_here pattern_re s = Some t"
  define r where "r = dropWhile (\<lambda>c. c = CHR 0x09) xs"
  have le: "length r \<le> length xs"
    by (simp add: r_def length_dropWhile_le)
  have t: "t = (case r of [] \<Rightarrow> [] | y # ys \<Rightarrow> if y = CHR '' '' then ys else y # ys)"
    using m Cons by (simp add: match_here_pattern_re r_def split: if_splits)
  have "length t \<le> length r"
    unfolding t by (cases r) simp_all
  then show ?thesis using le Cons by simp
qed

lemma ReplaceAllString_pattern_re: "ReplaceAllString pattern_re s = strip_runs s"
proof (induction s rule: strip_runs.induct)
  case 1
  show ?case by simp
next
  case (2 x xs)
  show ?case
  proof (cases "x = CHR ''\<newline>''")
    case True
    define t where "t = (case dropWhile (\<lambda>c. c = CHR 0x09) xs of [] \<Rightarrow> [] | y # ys \<Rightarrow> if y = CHR '' '' then ys else y # ys)"
    have m: "match_here pattern_re (x # xs) = Some t"
      using True by (simp add: match_here_pattern_re t_def)
    have "length t < length (x # xs)" using m by (rule match_here_shorter)
    then have "ReplaceAllString pattern_re (x # xs) = ReplaceAllString pattern_re t"
      using m by simp
    also have "\<dots> = strip_runs t" using 2(1) [OF True refl] by (simp add: t_def)
    also have "\<dots> = strip_runs (x # xs)" using True by (simp add: t_def Let_def)
    finally show ?thesis .
  next
    case False
    then show ?thesis using 2(2) by (simp add: match_here_pattern_re)
  qed
qed

lemma traverse_children_map:
  "(\<And>m. m \<in> set ms \<Longrightarrow> traverseHTML Compile m = Inr (f m)) \<Longrightarrow>
     traverse_children Compile ms b = Inr (b @ concat (map f ms))"
  by (induction ms arbitrary: b) simp_all

lemma traverse_rendered:
  assumes C: "Compile pattern = Inr pattern_re"
  shows "text_leaves n \<Longrightarrow> traverseHTML Compile n = Inr (rendered n)"
proof (induction n)
  case (Node ty d ms)
  have leaves: "\<And>m. m \<in> set ms \<Longrightarrow> text_leaves m"
    using Node.prems by (simp add: list_all_iff)
  have kids: "traverse_children Compile ms b = Inr (b @ concat (map rendered ms))" for b
    by (rule traverse_children_map) (simp add: Node.IH leaves)
  show ?case
  proof (cases ty)
    case TextNode
    then have "ms = []" using Node.prems by simp
    then show ?thesis using TextNode by (simp add: C ReplaceAllString_pattern_re Let_def)
  qed (simp_all add: C kids)
qed

lemma traverse_total:
  assumes C: "Compile pattern = Inr re"
  shows "\<exists>s. traverseHTML Compile n = Inr s"
proof (induction n)
  case (Node ty d ms)
  define f where "f m = (case traverseHTML Compile m of Inr s \<Rightarrow> s | Inl e \<Rightarrow> [])" for m
  have "traverseHTML Compile m = Inr (f m)" if mem: "m \<in> set ms" for m
  proof -
    obtain s where "traverseHTML Compile m = Inr s" using Node.IH [OF mem] by blast
    then show ?thesis by (simp add: f_def)
  qed
  then have kids: "traverse_children Compile ms b = Inr (b @ concat (map f ms))" for b
    by (rule traverse_children_map)
  show ?case by (simp add: C kids Let_def)
qed

lemma traverse_children_error:
  "traverse_children Compile ms b = Inl e \<Longrightarrow> \<exists>m \<in> set ms. traverseHTML Compile m = Inl e"
  by (induction ms arbitrary: b) (auto split: sum.splits)

lemma traverse_error:
  "traverseHTML Compile n = Inl e \<Longrightarrow> Compile pattern = Inl e"
proof (induction n)
  case (Node ty d ms)
  show ?case
  proof (cases "Compile pattern")
    case (Inl e')
    then show ?thesis using Node.prems by simp
  next
    case (Inr re)
    then obtain s where "traverseHTML Compile (Node ty d ms) = Inr s"
      using traverse_total [of Compile re "Node ty d ms"] by blast
    then show ?thesis using Node.prems by simp
  qed
qed

text \<open>
  C5. With the pattern compiled to what it denotes, the walk over a tree with its text in
  leaves returns the rendering as the specification words it: depth-first, children in
  document order, a text node giving its text with every run of a newline, tabs and at
  most one space removed, a \<open>p\<close> or \<open>h3\<close> element giving the text of its descendants
  and one newline after it, every other node the text of its descendants. Stripping
  \<open><p>Hello\n\tworld</p>\<close> yields \<open>Helloworld\n\<close>.
\<close>

theorem markup_rendering:
  assumes "Compile pattern = Inr pattern_re" and "text_leaves n"
  shows "traverseHTML Compile n = Inr (rendered n)
    \<and> stripHTML (answering (Inr Hello_doc)) Compile Hello_src = Inr ''Helloworld\<newline>''"
proof
  show "traverseHTML Compile n = Inr (rendered n)"
    using assms by (rule traverse_rendered)
next
  have "text_leaves Hello_doc" by (simp add: Hello_doc_def)
  then have "traverseHTML Compile Hello_doc = Inr (rendered Hello_doc)"
    using assms(1) traverse_rendered by blast
  moreover have "rendered Hello_doc = ''Helloworld\<newline>''"
    by (simp add: Hello_doc_def)
  ultimately show "stripHTML (answering (Inr Hello_doc)) Compile Hello_src = Inr ''Helloworld\<newline>''"
    by (simp add: stripHTML_def answering_def)
qed

theorem markup_rendering_witness:
  "answering (Inr pattern_re) pattern = Inr pattern_re
   \<and> text_leaves (Node ElementNode ''h3'' [Node TextNode ''Route 34'' [], Node CommentNode ''x'' []])
   \<and> traverseHTML (answering (Inr pattern_re))
         (Node ElementNode ''h3'' [Node TextNode ''Route 34'' [], Node CommentNode ''x'' []])
       = Inr ''Route 34\<newline>''
   \<and> stripHTML (answering (Inr Hello_doc)) (answering (Inr pattern_re)) Hello_src
       = Inr ''Helloworld\<newline>''"
  using markup_rendering [of "answering (Inr pattern_re)"
      "Node ElementNode ''h3'' [Node TextNode ''Route 34'' [], Node CommentNode ''x'' []]"]
  by (simp add: answering_def)

text \<open>
  C10. Once the pattern compiles, the walk returns a text for every tree; an error of the
  walk is the error of compiling the pattern and of nothing else; so, the pattern
  compiling, \<open>stripHTML\<close> fails only with the error of \<open>html.Parse\<close>.
\<close>

theorem traversal_never_fails:
  "(Compile pattern = Inr re \<longrightarrow> (\<exists>s. traverseHTML Compile n = Inr s))
   \<and> (traverseHTML Compile n = Inl e \<longrightarrow> Compile pattern = Inl e)
   \<and> (Compile pattern = Inr re \<longrightarrow> stripHTML Parse Compile src = Inl e \<longrightarrow> Parse src = Inl e)"
proof (intro conjI impI)
  assume "Compile pattern = Inr re"
  then show "\<exists>s. traverseHTML Compile n = Inr s"
    using traverse_total [of Compile re n] by simp
next
  assume "traverseHTML Compile n = Inl e"
  then show "Compile pattern = Inl e" by (rule traverse_error)
next
  assume C: "Compile pattern = Inr re" and S: "stripHTML Parse Compile src = Inl e"
  show "Parse src = Inl e"
  proof (cases "Parse src")
    case (Inl e')
    then show ?thesis using S by (simp add: stripHTML_def)
  next
    case (Inr m)
    obtain s where "traverseHTML Compile m = Inr s"
      using traverse_total [of Compile re m] C by blast
    then show ?thesis using S Inr by (simp add: stripHTML_def)
  qed
qed

theorem traversal_never_fails_witness:
  "answering (Inr pattern_re) pattern = Inr pattern_re
   \<and> (\<exists>s. traverseHTML (answering (Inr pattern_re)) Hello_doc = Inr s)
   \<and> stripHTML (answering (Inl MarkupParseError)) (answering (Inr pattern_re)) ''<p'' = Inl MarkupParseError
   \<and> answering (Inl MarkupParseError) ''<p'' = (Inl MarkupParseError :: error + html_Node)
   \<and> traverseHTML (answering (Inl RegexpError)) Hello_doc = Inl RegexpError
   \<and> answering (Inl RegexpError) pattern = (Inl RegexpError :: error + Regexp)"
  using traversal_never_fails [of "answering (Inr pattern_re)" pattern_re Hello_doc MarkupParseError
      "answering (Inl MarkupParseError)" "''<p''"]
    traversal_never_fails [of "answering (Inl RegexpError)" pattern_re Hello_doc RegexpError
      "answering (Inl MarkupParseError)" "''<p''"]
  by (simp add: answering_def stripHTML_def Hello_doc_def)

subsection \<open>The tree\<close>

lemma newBusTrolleyRoutes_loop_inode:
  "busTrolleyRoutes.inode (newBusTrolleyRoutes_loop G b ids r) = busTrolleyRoutes.inode r"
  by (induction ids arbitrary: r) (simp_all add: Let_def)

lemma newBusTrolleyRoutes_loop_routeIDs:
  "routeIDs (newBusTrolleyRoutes_loop G b ids r) = routeIDs r"
  by (induction ids arbitrary: r) (simp_all add: Let_def)

lemma newBusTrolleyRoutes_loop_routeNodes:
  "routeNodes (newBusTrolleyRoutes_loop G b ids r) name =
     (if name \<in> set ids
      then Some (newBusTrolleyRoute G name (G (busTrolleyRoutes.inode r) name) b)
      else routeNodes r name)"
proof (induction ids arbitrary: r)
  case Nil
  show ?case by simp
next
  case (Cons a ids)
  show ?case by (simp add: Cons.IH Let_def)
qed

lemma routeNodes_newBusTrolleyRoutes:
  "routeNodes (newBusTrolleyRoutes G routes b i) name =
     (if name \<in> set routes then Some (newBusTrolleyRoute G name (G i name) b) else None)"
  by (simp add: newBusTrolleyRoutes_def newBusTrolleyRoutes_loop_routeNodes)

lemma Lookup_newBusTrolleyRoutes:
  "Lookup_busTrolleyRoutes (newBusTrolleyRoutes G routes b i) name =
     (if name \<in> set routes then Inr (RouteDir (newBusTrolleyRoute G name (G i name) b))
      else Inl ENOENT)"
  by (simp add: Lookup_busTrolleyRoutes_def routeNodes_newBusTrolleyRoutes)

text \<open>
  C6. For every route identifier of the trolley catalog, the lookup of \<open>trolley\<close> at the
  root and the lookup of the identifier in what it returns both succeed, and the route
  directory found lists exactly \<open>locations\<close> and \<open>alerts\<close>, in this order, both as
  files. (Whatever the generator of inodes.)
\<close>

theorem trolley_route_lookup:
  "\<forall>name \<in> set tRouteIDs. \<exists>t r.
      Lookup_rootDir (Root G) ''trolley'' = Inr (RoutesDir t)
      \<and> Lookup_busTrolleyRoutes t name = Inr (RouteDir r)
      \<and> ReadDir_busTrolleyRoute r =
          [\<lparr>Name = ''locations'', Type = DT_File\<rparr>, \<lparr>Name = ''alerts'', Type = DT_File\<rparr>]"
proof
  fix name assume mem: "name \<in> set tRouteIDs"
  let ?t = "newBusTrolleyRoutes G tRouteIDs False 2"
  let ?r = "newBusTrolleyRoute G name (G 2 name) False"
  have "Lookup_rootDir (Root G) ''trolley'' = Inr (RoutesDir ?t)"
    by (simp add: Lookup_rootDir_def Root_def)
  moreover have "Lookup_busTrolleyRoutes ?t name = Inr (RouteDir ?r)"
    using mem by (simp add: Lookup_newBusTrolleyRoutes)
  moreover have "ReadDir_busTrolleyRoute ?r =
      [\<lparr>Name = ''locations'', Type = DT_File\<rparr>, \<lparr>Name = ''alerts'', Type = DT_File\<rparr>]"
    by (simp add: ReadDir_busTrolleyRoute_def)
  ultimately show "\<exists>t r.
      Lookup_rootDir (Root G) ''trolley'' = Inr (RoutesDir t)
      \<and> Lookup_busTrolleyRoutes t name = Inr (RouteDir r)
      \<and> ReadDir_busTrolleyRoute r =
          [\<lparr>Name = ''locations'', Type = DT_File\<rparr>, \<lparr>Name = ''alerts'', Type = DT_File\<rparr>]"
    by blast
qed

theorem trolley_route_lookup_witness:
  "''101'' \<in> set tRouteIDs \<and> (\<exists>t r.
      Lookup_rootDir (Root GenerateDynamicInode) ''trolley'' = Inr (RoutesDir t)
      \<and> Lookup_busTrolleyRoutes t ''101'' = Inr (RouteDir r)
      \<and> ReadDir_busTrolleyRoute r =
          [\<lparr>Name = ''locations'', Type = DT_File\<rparr>, \<lparr>Name = ''alerts'', Type = DT_File\<rparr>])"
proof -
  have mem: "''101'' \<in> set tRouteIDs" by (simp add: tRouteIDs_def)
  show ?thesis
    using mem trolley_route_lookup [of GenerateDynamicInode, rule_format, OF mem] by blast
qed

text \<open>
  C7. A lookup of a name that is not a child fails with \<open>ENOENT\<close> and returns no node:
  at the root any name other than \<open>trolley\<close> and \<open>bus\<close>, in a catalog directory any
  name that is not, letter for letter, an identifier of its catalog, in a route directory
  any name other than \<open>locations\<close> and \<open>alerts\<close>.
\<close>

theorem lookup_unknown_name:
  "(name \<noteq> ''trolley'' \<and> name \<noteq> ''bus'' \<longrightarrow> Lookup_rootDir d name = Inl ENOENT)
   \<and> (name \<notin> set routes \<longrightarrow>
        Lookup_busTrolleyRoutes (newBusTrolleyRoutes G routes b i) name = Inl ENOENT)
   \<and> (name \<noteq> ''locations'' \<and> name \<noteq> ''alerts'' \<longrightarrow> Lookup_busTrolleyRoute r name = Inl ENOENT)"
  by (simp add: Lookup_rootDir_def Lookup_newBusTrolleyRoutes Lookup_busTrolleyRoute_def)

theorem lookup_unknown_name_witness:
  "''Bus'' \<noteq> ''trolley'' \<and> ''Bus'' \<noteq> ''bus'' \<and> ''Bus'' \<noteq> ''locations'' \<and> ''Bus'' \<noteq> ''alerts''
   \<and> ''Bus'' \<notin> set bRouteIDs
   \<and> Lookup_rootDir (Root GenerateDynamicInode) ''Bus'' = Inl ENOENT
   \<and> Lookup_busTrolleyRoutes (newBusTrolleyRoutes GenerateDynamicInode bRouteIDs True 3) ''Bus''
       = Inl ENOENT
   \<and> Lookup_busTrolleyRoute (newBusTrolleyRoute GenerateDynamicInode ''34'' 7 False) ''Bus''
       = Inl ENOENT"
proof -
  have a: "''Bus'' \<noteq> ''trolley'' \<and> ''Bus'' \<noteq> ''bus''" by simp
  have b: "''Bus'' \<notin> set bRouteIDs" by (simp add: bRouteIDs_def)
  have c: "''Bus'' \<noteq> ''locations'' \<and> ''Bus'' \<noteq> ''alerts''" by simp
  show ?thesis
    using a b c
      lookup_unknown_name [of "''Bus''" "Root GenerateDynamicInode" bRouteIDs
        GenerateDynamicInode True 3 "newBusTrolleyRoute GenerateDynamicInode ''34'' 7 False"]
    by blast
qed

end
